theory Spec2Isabelle
  imports Main "HOL-Library.Char_ord" "HOL-Library.List_Lexorder"
begin

section \<open>The crew pipeline of \<open>aggregate_principals.py\<close>\<close>

text \<open>
  The script loads three tab-separated tables into pandas data frames, keeps the films of a
  fixed list, joins the actors of each film to its crew row, splits the comma-joined
  identifier fields, replaces every person identifier by its name, and writes the result.

  The tables are modelled after loading: a data frame is the list of its rows in row order,
  a row is a record of the columns the script reads, and every cell is a string. What
  \<open>read_csv\<close> does with a file (parsing, missing values) is outside the model, and so is
  what the \<open>print\<close> calls write to the terminal.
\<close>

subsection \<open>Data model\<close>

text \<open>A row of the crew table: columns \<open>tconst\<close>, \<open>directors\<close>, \<open>writers\<close>.\<close>

record crew_row =
  tconst :: string
  directors :: string
  writers :: string

text \<open>A row of the principals table: columns \<open>tconst\<close>, \<open>nconst\<close>, \<open>category\<close>.\<close>

record principal_row =
  p_tconst :: string
  p_nconst :: string
  category :: string

text \<open>A row of the names table: columns \<open>nconst\<close>, \<open>primaryName\<close>.\<close>

record name_row =
  nconst :: string
  primaryName :: string

text \<open>
  A row of \<open>merged_crew\<close> after the projection of line 84: the film identifier and three
  list cells. The lists hold person identifiers after \<open>merge_crew\<close> and names after
  \<open>map_crew\<close>. The frame comes out of \<open>pd.merge\<close> with a fresh range index, so the index
  label of a row is its position in the list.
\<close>

record merged_row =
  m_tconst :: string
  m_directors :: "string list"
  m_writers :: "string list"
  actors :: "string list"

text \<open>
  The object \<open>self\<close>. The attribute \<open>merged_crew\<close> is only annotated in the class body and
  is assigned by \<open>merge_crew\<close>: before that it does not exist (\<open>None\<close> here).
\<close>

record crew_reader =
  crew :: "crew_row list"
  principals :: "principal_row list"
  names :: "name_row list"
  merged_crew :: "merged_row list option"

datatype py_error = IndexError | AttributeError | OSError

text \<open>The module constant \<open>MOVIE_IDS\<close> (lines 6 to 25).\<close>

definition MOVIE_IDS :: "string list" where
  "MOVIE_IDS =
    [''tt0050083'', ''tt0062622'', ''tt0066921'', ''tt0026778'', ''tt0044081'',
     ''tt0042192'', ''tt0074119'', ''tt0069704'', ''tt0075686'', ''tt0078788'',
     ''tt0052618'', ''tt0083658'', ''tt0061418'', ''tt0029947'', ''tt0064115'',
     ''tt0068327'', ''tt0034583'', ''tt0071315'', ''tt0033467'', ''tt0021749'',
     ''tt0097216'', ''tt0036775'', ''tt0057012'', ''tt0023969'', ''tt0064276'',
     ''tt0109830'', ''tt0031381'', ''tt0099685'', ''tt0044706'', ''tt0061811'',
     ''tt0025316'', ''tt0038650'', ''tt0073195'', ''tt0024216'', ''tt0056172'',
     ''tt0066026'', ''tt0064665'', ''tt0027977'', ''tt0031679'', ''tt0073440'',
     ''tt0074958'', ''tt0053125'', ''tt0047296'', ''tt0073486'', ''tt0091763'',
     ''tt0054215'', ''tt0110912'', ''tt0081398'', ''tt0082971'', ''tt0047396'',
     ''tt0075148'', ''tt0120815'', ''tt0108052'', ''tt0046303'', ''tt0045152'',
     ''tt0029583'', ''tt0053291'', ''tt0084707'', ''tt0054331'', ''tt0076759'',
     ''tt0034240'', ''tt0018455'', ''tt0043014'', ''tt0028333'', ''tt0075314'',
     ''tt0043265'', ''tt0053604'', ''tt0036868'', ''tt0050212'', ''tt0077416'',
     ''tt0067116'', ''tt0017925'', ''tt0068646'', ''tt0071562'', ''tt0015864'',
     ''tt0061722'', ''tt0032551'', ''tt0067328'', ''tt0120737'', ''tt0033870'',
     ''tt0032904'', ''tt0049730'', ''tt0111161'', ''tt0102926'', ''tt0167404'',
     ''tt0059742'', ''tt0040897'', ''tt0065214'', ''tt0032138'', ''tt0120338'',
     ''tt0056592'', ''tt0084805'', ''tt0114709'', ''tt0105695'', ''tt0052357'',
     ''tt0055614'', ''tt0061184'', ''tt0035575'']"

subsection \<open>Joining and splitting on commas\<close>

text \<open>Python's \<open>','.join(x)\<close> of line 69.\<close>

fun join_comma :: "string list \<Rightarrow> string" where
  "join_comma [] = []"
| "join_comma [x] = x"
| "join_comma (x # y # ys) = x @ CHR '','' # join_comma (y # ys)"

text \<open>
  \<open>str.split(',')\<close> of lines 79 to 81, as a scan that collects the current field in
  \<open>cur\<close> and closes it at every comma and at the end of the string. The empty string
  splits into one empty field.
\<close>

fun split_acc :: "string \<Rightarrow> string \<Rightarrow> string list" where
  "split_acc cur [] = [cur]"
| "split_acc cur (c # cs) =
     (if c = CHR '','' then cur # split_acc [] cs else split_acc (cur @ [c]) cs)"

definition split_comma :: "string \<Rightarrow> string list" where
  "split_comma s = split_acc [] s"

subsection \<open>\<open>CrewReader.__init__\<close>\<close>

text \<open>
  Lines 53 to 59. The three arguments are the tables as read from the three files.
  \<open>ids\<close> is the value of the module global \<open>MOVIE_IDS\<close> that \<open>isin\<close> receives; the
  program as shipped runs with the constant above.
\<close>

definition init ::
  "string list \<Rightarrow> crew_row list \<Rightarrow> principal_row list \<Rightarrow> name_row list \<Rightarrow> crew_reader" where
  "init ids crew_tbl principals_tbl names_tbl =
     \<lparr>crew = filter (\<lambda>r. tconst r \<in> set ids) crew_tbl,
      principals = filter (\<lambda>r. p_tconst r \<in> set ids) principals_tbl,
      names = names_tbl,
      merged_crew = None\<rparr>"

subsection \<open>\<open>CrewReader.merge_crew\<close>\<close>

text \<open>
  Line 69: \<open>groupby("tconst")["nconst"].apply(join).reset_index()\<close>. One row per distinct
  film identifier, the keys in sorted order (the default \<open>sort=True\<close>), each with the
  person identifiers of its rows joined in row order.
\<close>

definition groupby_join :: "principal_row list \<Rightarrow> (string \<times> string) list" where
  "groupby_join rows =
     map (\<lambda>k. (k, join_comma (map p_nconst (filter (\<lambda>p. p_tconst p = k) rows))))
       (sort (remdups (map p_tconst rows)))"

text \<open>
  Line 74: \<open>pd.merge(left, right, how="inner")\<close> on the one common column \<open>tconst\<close>.
  Every pair of a left row and a right row with the same key, in the order of the left
  rows (the order that pandas documents for an inner join).
\<close>

definition pd_merge_inner ::
  "crew_row list \<Rightarrow> (string \<times> string) list \<Rightarrow> (crew_row \<times> string) list" where
  "pd_merge_inner left right =
     concat (map (\<lambda>c. map (\<lambda>kv. (c, snd kv)) (filter (\<lambda>kv. fst kv = tconst c) right)) left)"

text \<open>Lines 79 to 84: split the three fields and keep the four columns.\<close>

definition split_row :: "crew_row \<times> string \<Rightarrow> merged_row" where
  "split_row cn =
     \<lparr>m_tconst = tconst (fst cn),
      m_directors = split_comma (directors (fst cn)),
      m_writers = split_comma (writers (fst cn)),
      actors = split_comma (snd cn)\<rparr>"

definition merge_crew :: "crew_reader \<Rightarrow> crew_reader" where
  "merge_crew self =
     (let acts = filter (\<lambda>p. category p = ''actor'') (principals self);
          grouped = groupby_join acts;
          merged = pd_merge_inner (crew self) grouped
      in self\<lparr>merged_crew := Some (map split_row merged)\<rparr>)"

subsection \<open>\<open>CrewReader.map_crew\<close>\<close>

text \<open>
  The state of one pass: the local dictionary \<open>mappings\<close> of line 95, and \<open>queried\<close>,
  the identifiers for which line 113 scanned the names table, in the order of the scans.
  \<open>queried\<close> is not a variable of the script; it records the scans so that statements
  about them can be made.
\<close>

record resolver =
  mappings :: "string \<rightharpoonup> string"
  queried :: "string list"

text \<open>
  Line 113: \<open>self.names.loc[self.names.nconst == nconst, "primaryName"].values[0]\<close>.
  The rows with this identifier, in table order; index 0 of an empty selection raises
  \<open>IndexError\<close>.
\<close>

definition lookup_name :: "name_row list \<Rightarrow> string \<Rightarrow> py_error + string" where
  "lookup_name names_tbl n =
     (case filter (\<lambda>r. nconst r = n) names_tbl of
        [] \<Rightarrow> Inl IndexError
      | r # _ \<Rightarrow> Inr (primaryName r))"

text \<open>Lines 109 to 114, for one identifier.\<close>

definition resolve_nconst ::
  "name_row list \<Rightarrow> resolver \<Rightarrow> string \<Rightarrow> resolver \<times> (py_error + string)" where
  "resolve_nconst names_tbl st n =
     (case mappings st n of
        Some name \<Rightarrow> (st, Inr name)
      | None \<Rightarrow>
          (case lookup_name names_tbl n of
             Inl e \<Rightarrow> (st\<lparr>queried := queried st @ [n]\<rparr>, Inl e)
           | Inr name \<Rightarrow>
               (st\<lparr>mappings := (mappings st)(n \<mapsto> name), queried := queried st @ [n]\<rparr>,
                Inr name)))"

text \<open>
  Lines 105 to 118: the loop over one cell. \<open>acc\<close> is the list \<open>names\<close> built so far;
  the caller starts it empty.
\<close>

fun resolve_field ::
  "name_row list \<Rightarrow> resolver \<Rightarrow> string list \<Rightarrow> string list \<Rightarrow> resolver \<times> (py_error + string list)"
where
  "resolve_field names_tbl st [] acc = (st, Inr acc)"
| "resolve_field names_tbl st (n # ns) acc =
     (case resolve_nconst names_tbl st n of
        (st', Inl e) \<Rightarrow> (st', Inl e)
      | (st', Inr name) \<Rightarrow> resolve_field names_tbl st' ns (acc @ [name]))"

text \<open>
  Lines 100 to 121 for one row: columns 1, 2 and 3 in this order, each cell replaced as
  soon as its names are complete (line 121 stores the list as the value of the one cell
  of a frame whose columns all hold objects). An error leaves the cells replaced so far
  in place.
\<close>

definition map_row ::
  "name_row list \<Rightarrow> resolver \<Rightarrow> merged_row \<Rightarrow> resolver \<times> merged_row \<times> (py_error + unit)" where
  "map_row names_tbl st r =
     (case resolve_field names_tbl st (m_directors r) [] of
        (st1, Inl e) \<Rightarrow> (st1, r, Inl e)
      | (st1, Inr ds) \<Rightarrow>
          (let r1 = r\<lparr>m_directors := ds\<rparr> in
           case resolve_field names_tbl st1 (m_writers r1) [] of
             (st2, Inl e) \<Rightarrow> (st2, r1, Inl e)
           | (st2, Inr ws) \<Rightarrow>
               (let r2 = r1\<lparr>m_writers := ws\<rparr> in
                case resolve_field names_tbl st2 (actors r2) [] of
                  (st3, Inl e) \<Rightarrow> (st3, r2, Inl e)
                | (st3, Inr as) \<Rightarrow> (st3, r2\<lparr>actors := as\<rparr>, Inr ()))))"

text \<open>
  Line 98: the loop over the rows, in row order. The script walks the positions
  \<open>0 .. len - 1\<close> and writes each cell back at its position; here the rows already
  processed are the head of the result.
\<close>

fun map_rows ::
  "name_row list \<Rightarrow> resolver \<Rightarrow> merged_row list \<Rightarrow> resolver \<times> merged_row list \<times> (py_error + unit)"
where
  "map_rows names_tbl st [] = (st, [], Inr ())"
| "map_rows names_tbl st (r # rs) =
     (case map_row names_tbl st r of
        (st', r', Inl e) \<Rightarrow> (st', r' # rs, Inl e)
      | (st', r', Inr u) \<Rightarrow>
          (case map_rows names_tbl st' rs of
             (st'', rs', res) \<Rightarrow> (st'', r' # rs', res)))"

text \<open>One pass over a table, starting from the empty dictionary.\<close>

definition map_crew_run ::
  "name_row list \<Rightarrow> merged_row list \<Rightarrow> resolver \<times> merged_row list \<times> (py_error + unit)" where
  "map_crew_run names_tbl tbl = map_rows names_tbl \<lparr>mappings = Map.empty, queried = []\<rparr> tbl"

definition map_crew :: "crew_reader \<Rightarrow> crew_reader \<times> (py_error + unit)" where
  "map_crew self =
     (case merged_crew self of
        None \<Rightarrow> (self, Inl AttributeError)
      | Some tbl \<Rightarrow>
          (case map_crew_run (names self) tbl of
             (st, tbl', res) \<Rightarrow> (self\<lparr>merged_crew := Some tbl'\<rparr>, res)))"

subsection \<open>\<open>CrewReader.write_to_csv\<close> and the script\<close>

text \<open>
  \<open>DataFrame.to_csv(path)\<close> with its defaults: a header line, the index as the leading
  column (its header cell empty), and the file opened for writing, which replaces what was
  there. A file is the list of its lines, a line the list of its cells; how a cell is
  printed is not modelled.
\<close>

datatype cell = Index nat | Text string | Seq "string list"

type_synonym csv_file = "cell list list"

text \<open>
  The files the script can reach: their contents by path, and \<open>openable\<close>, the paths that
  the operating system lets the process open for writing (the directory exists, the
  permissions allow it). The empty path can never be opened.
\<close>

record file_system =
  files :: "string \<rightharpoonup> csv_file"
  openable :: "string \<Rightarrow> bool"

definition csv_header :: "cell list" where
  "csv_header = [Text [], Text ''tconst'', Text ''directors'', Text ''writers'', Text ''actors'']"

definition csv_line :: "nat \<times> merged_row \<Rightarrow> cell list" where
  "csv_line ir =
     [Index (fst ir), Text (m_tconst (snd ir)), Seq (m_directors (snd ir)),
      Seq (m_writers (snd ir)), Seq (actors (snd ir))]"

definition to_csv :: "merged_row list \<Rightarrow> csv_file" where
  "to_csv tbl = csv_header # map csv_line (enumerate 0 tbl)"

text \<open>
  Line 127. The attribute is read first; then \<open>to_csv\<close> opens the path, which raises
  \<open>OSError\<close> (or one of its subclasses) and changes nothing when the path cannot be opened.
\<close>

definition write_to_csv ::
  "file_system \<Rightarrow> crew_reader \<Rightarrow> string \<Rightarrow> file_system \<times> (py_error + unit)"
where
  "write_to_csv fs self output_file =
     (case merged_crew self of
        None \<Rightarrow> (fs, Inl AttributeError)
      | Some tbl \<Rightarrow>
          if output_file \<noteq> [] \<and> openable fs output_file
          then (fs\<lparr>files := (files fs)(output_file \<mapsto> to_csv tbl)\<rparr>, Inr ())
          else (fs, Inl OSError))"

text \<open>
  Lines 131 to 142, from the loaded tables on. An exception of \<open>map_crew\<close> ends the script
  there, before line 142.
\<close>

definition run ::
  "string list \<Rightarrow> file_system \<Rightarrow> crew_row list \<Rightarrow> principal_row list \<Rightarrow> name_row list
     \<Rightarrow> file_system \<times> (py_error + unit)" where
  "run ids fs crew_tbl principals_tbl names_tbl =
     (let crew_reader = merge_crew (init ids crew_tbl principals_tbl names_tbl) in
      case map_crew crew_reader of
        (crew_reader', Inl e) \<Rightarrow> (fs, Inl e)
      | (crew_reader', Inr u) \<Rightarrow> write_to_csv fs crew_reader' ''crew_info.csv'')"

definition main ::
  "file_system \<Rightarrow> crew_row list \<Rightarrow> principal_row list \<Rightarrow> name_row list
     \<Rightarrow> file_system \<times> (py_error + unit)" where
  "main = run MOVIE_IDS"

subsection \<open>Predicates of the statements\<close>

text \<open>The person identifiers of a merged row, over its three list cells.\<close>

definition person_ids :: "merged_row \<Rightarrow> string set" where
  "person_ids r = set (m_directors r) \<union> set (m_writers r) \<union> set (actors r)"

text \<open>
  \<open>vs\<close> are the names of the identifiers \<open>ns\<close>: as many, in the same order, each the
  value that line 113 computes for its identifier.
\<close>

definition names_of :: "name_row list \<Rightarrow> string list \<Rightarrow> string list \<Rightarrow> bool" where
  "names_of names_tbl ns vs = list_all2 (\<lambda>n v. lookup_name names_tbl n = Inr v) ns vs"

definition resolved_row :: "name_row list \<Rightarrow> merged_row \<Rightarrow> merged_row \<Rightarrow> bool" where
  "resolved_row names_tbl r r' =
     (m_tconst r' = m_tconst r \<and>
      names_of names_tbl (m_directors r) (m_directors r') \<and>
      names_of names_tbl (m_writers r) (m_writers r') \<and>
      names_of names_tbl (actors r) (actors r'))"

text \<open>
  Two invariants of the loop. The dictionary only holds what the names table gives, and
  the scans so far are those of the keys of the dictionary, each once.
\<close>

definition cache_ok :: "name_row list \<Rightarrow> resolver \<Rightarrow> bool" where
  "cache_ok names_tbl st = (\<forall>k v. mappings st k = Some v \<longrightarrow> lookup_name names_tbl k = Inr v)"

definition trace_ok :: "resolver \<Rightarrow> bool" where
  "trace_ok st = (distinct (queried st) \<and> set (queried st) = dom (mappings st))"

text \<open>
  The actor rows of film \<open>t\<close> in a principals table, in table order, and the merged row
  that a crew row yields from them.
\<close>

definition actor_rows :: "principal_row list \<Rightarrow> string \<Rightarrow> principal_row list" where
  "actor_rows rows t = filter (\<lambda>p. p_tconst p = t) (filter (\<lambda>p. category p = ''actor'') rows)"

definition merged_of :: "principal_row list \<Rightarrow> crew_row \<Rightarrow> merged_row" where
  "merged_of rows c =
     \<lparr>m_tconst = tconst c,
      m_directors = split_comma (directors c),
      m_writers = split_comma (writers c),
      actors = split_comma (join_comma (map p_nconst (actor_rows rows (tconst c))))\<rparr>"

subsection \<open>The scenario tables\<close>

text \<open>
  One film \<open>t\<close> with two directors, one writer, two actor rows and one director row in the
  principals table; the names table has no row for \<open>nm6\<close>.
\<close>

definition scenario_crew :: "string \<Rightarrow> crew_row list" where
  "scenario_crew t = [\<lparr>tconst = t, directors = ''nm1,nm2'', writers = ''nm3''\<rparr>]"

definition scenario_principals :: "string \<Rightarrow> principal_row list" where
  "scenario_principals t =
     [\<lparr>p_tconst = t, p_nconst = ''nm4'', category = ''actor''\<rparr>,
      \<lparr>p_tconst = t, p_nconst = ''nm5'', category = ''actor''\<rparr>,
      \<lparr>p_tconst = t, p_nconst = ''nm6'', category = ''director''\<rparr>]"

definition scenario_names :: "name_row list" where
  "scenario_names =
     [\<lparr>nconst = ''nm1'', primaryName = ''A''\<rparr>, \<lparr>nconst = ''nm2'', primaryName = ''B''\<rparr>,
      \<lparr>nconst = ''nm3'', primaryName = ''C''\<rparr>, \<lparr>nconst = ''nm4'', primaryName = ''D''\<rparr>,
      \<lparr>nconst = ''nm5'', primaryName = ''E''\<rparr>]"


definition old_files :: "bool \<Rightarrow> file_system" where
  "old_files w = \<lparr>files = [''crew_info.csv'' \<mapsto> [[Text ''old'']]], openable = (\<lambda>p. w)\<rparr>"

definition repeat_table :: "merged_row list" where
  "repeat_table =
     [\<lparr>m_tconst = ''tt0050083'', m_directors = [''nm1'', ''nm1''], m_writers = [''nm3''],
       actors = [''nm4'', ''nm1'']\<rparr>]"

definition repeat_reader :: crew_reader where
  "repeat_reader = \<lparr>crew = [], principals = [], names = scenario_names, merged_crew = Some repeat_table\<rparr>"

definition duplicate_names :: "name_row list" where
  "duplicate_names =
     [\<lparr>nconst = ''nm1'', primaryName = ''A''\<rparr>, \<lparr>nconst = ''nm2'', primaryName = ''B''\<rparr>,
      \<lparr>nconst = ''nm1'', primaryName = ''Z''\<rparr>]"

definition duplicate_table :: "merged_row list" where
  "duplicate_table =
     [\<lparr>m_tconst = ''tt0050083'', m_directors = [''nm1''], m_writers = [''nm2''],
       actors = [''nm2'', ''nm1'']\<rparr>]"

definition no_value_marker :: string where
  "no_value_marker = [CHR 0x5C, CHR ''N'']"

definition marker_reader :: crew_reader where
  "marker_reader =
     \<lparr>crew = [\<lparr>tconst = ''tt0050083'', directors = no_value_marker, writers = no_value_marker\<rparr>],
      principals = scenario_principals ''tt0050083'', names = scenario_names, merged_crew = None\<rparr>"


definition short_names :: "name_row list" where
  "short_names =
     [\<lparr>nconst = ''nm1'', primaryName = ''A''\<rparr>, \<lparr>nconst = ''nm2'', primaryName = ''B''\<rparr>,
      \<lparr>nconst = ''nm3'', primaryName = ''C''\<rparr>, \<lparr>nconst = ''nm4'', primaryName = ''D''\<rparr>]"

section \<open>Properties\<close>

subsection \<open>Commas\<close>

lemma split_acc_ne: "split_acc cur s \<noteq> []"
  by (induction s arbitrary: cur) auto

lemma join_cons: "ws \<noteq> [] \<Longrightarrow> join_comma (w # ws) = w @ CHR '','' # join_comma ws"
  by (cases ws) auto

lemma join_split_acc: "join_comma (split_acc cur s) = cur @ s"
  by (induction s arbitrary: cur) (auto simp: join_cons split_acc_ne)

lemma split_acc_nocomma: "CHR '','' \<notin> set x \<Longrightarrow> split_acc cur x = [cur @ x]"
  by (induction x arbitrary: cur) auto

lemma split_acc_field:
  "CHR '','' \<notin> set x \<Longrightarrow> split_acc cur (x @ CHR '','' # rest) = (cur @ x) # split_acc [] rest"
  by (induction x arbitrary: cur) auto

lemma split_join:
  "xs \<noteq> [] \<Longrightarrow> \<forall>x\<in>set xs. CHR '','' \<notin> set x \<Longrightarrow> split_comma (join_comma xs) = xs"
  unfolding split_comma_def
proof (induction xs rule: join_comma.induct)
  case 1
  then show ?case by simp
next
  case (2 x)
  then show ?case by (simp add: split_acc_nocomma)
next
  case (3 x y ys)
  then show ?case by (simp add: split_acc_field)
qed

subsection \<open>The resolution pass\<close>

lemma lookup_name_Inl: "lookup_name nt n = Inl e \<longleftrightarrow> e = IndexError \<and> n \<notin> nconst ` set nt"
proof (cases "filter (\<lambda>r. nconst r = n) nt")
  case Nil
  then have "n \<notin> nconst ` set nt" by (auto simp: filter_empty_conv)
  with Nil show ?thesis by (cases e) (auto simp: lookup_name_def)
next
  case (Cons r rs)
  then have "r \<in> set (filter (\<lambda>r. nconst r = n) nt)" by simp
  then have "n \<in> nconst ` set nt" by auto
  with Cons show ?thesis by (simp add: lookup_name_def)
qed

lemma resolve_nconst_result:
  "cache_ok nt st \<Longrightarrow> snd (resolve_nconst nt st n) = lookup_name nt n"
  by (auto simp: resolve_nconst_def cache_ok_def split: option.splits sum.splits)

lemma resolve_nconst_cache:
  "cache_ok nt st \<Longrightarrow> cache_ok nt (fst (resolve_nconst nt st n))"
  by (auto simp: resolve_nconst_def cache_ok_def split: option.splits sum.splits)

lemma resolve_nconst_distinct:
  "trace_ok st \<Longrightarrow> distinct (queried (fst (resolve_nconst nt st n)))"
  by (auto simp: resolve_nconst_def trace_ok_def split: option.splits sum.splits)

lemma resolve_nconst_trace:
  "trace_ok st \<Longrightarrow> resolve_nconst nt st n = (st', Inr v) \<Longrightarrow> trace_ok st'"
  by (auto simp: resolve_nconst_def trace_ok_def split: option.splits sum.splits)

lemma resolve_field_cache:
  "cache_ok nt st \<Longrightarrow> cache_ok nt (fst (resolve_field nt st ns acc))"
proof (induction ns arbitrary: st acc)
  case Nil then show ?case by simp
next
  case (Cons n ns)
  from Cons.prems have "cache_ok nt (fst (resolve_nconst nt st n))" by (rule resolve_nconst_cache)
  with Cons.IH show ?case by (auto split: prod.splits sum.splits)
qed

lemma resolve_field_Inr:
  "cache_ok nt st \<Longrightarrow> resolve_field nt st ns acc = (st', Inr out) \<Longrightarrow>
     \<exists>vs. out = acc @ vs \<and> list_all2 (\<lambda>n v. lookup_name nt n = Inr v) ns vs"
proof (induction ns arbitrary: st acc)
  case Nil then show ?case by simp
next
  case (Cons n ns)
  obtain st1 res where r: "resolve_nconst nt st n = (st1, res)" by (cases "resolve_nconst nt st n")
  from Cons.prems(1) r have c1: "cache_ok nt st1" and l: "res = lookup_name nt n"
    using resolve_nconst_cache[of nt st n] resolve_nconst_result[of nt st n] by auto
  from Cons.prems(2) r obtain name where res: "res = Inr name"
    and rest: "resolve_field nt st1 ns (acc @ [name]) = (st', Inr out)"
    by (auto split: sum.splits)
  from Cons.IH[OF c1 rest] obtain vs where "out = (acc @ [name]) @ vs"
    and "list_all2 (\<lambda>n v. lookup_name nt n = Inr v) ns vs" by blast
  with l res show ?case by (intro exI[of _ "name # vs"]) simp
qed

lemma resolve_field_Inl:
  "cache_ok nt st \<Longrightarrow> resolve_field nt st ns acc = (st', Inl e) \<Longrightarrow>
     e = IndexError \<and> (\<exists>n\<in>set ns. n \<notin> nconst ` set nt)"
proof (induction ns arbitrary: st acc)
  case Nil then show ?case by simp
next
  case (Cons n ns)
  obtain st1 res where r: "resolve_nconst nt st n = (st1, res)" by (cases "resolve_nconst nt st n")
  from Cons.prems(1) r have c1: "cache_ok nt st1" and l: "res = lookup_name nt n"
    using resolve_nconst_cache[of nt st n] resolve_nconst_result[of nt st n] by auto
  show ?case
  proof (cases res)
    case (Inl e')
    with l have f: "lookup_name nt n = Inl e'" by simp
    then have "e' = IndexError" and "n \<notin> nconst ` set nt" by (simp_all add: lookup_name_Inl)
    moreover from Cons.prems(2) r Inl have "e = e'" by simp
    ultimately show ?thesis by simp
  next
    case (Inr name)
    with Cons.prems(2) r have "resolve_field nt st1 ns (acc @ [name]) = (st', Inl e)" by simp
    from Cons.IH[OF c1 this] show ?thesis by auto
  qed
qed

lemma resolve_field_distinct:
  "trace_ok st \<Longrightarrow> distinct (queried (fst (resolve_field nt st ns acc)))"
proof (induction ns arbitrary: st acc)
  case Nil then show ?case by (simp add: trace_ok_def)
next
  case (Cons n ns)
  obtain st1 res where r: "resolve_nconst nt st n = (st1, res)" by (cases "resolve_nconst nt st n")
  show ?case
  proof (cases res)
    case (Inl e)
    with r resolve_nconst_distinct[OF Cons.prems, of nt n] show ?thesis by simp
  next
    case (Inr name)
    with r Cons.prems have "trace_ok st1" by (auto dest: resolve_nconst_trace)
    from Cons.IH[OF this] r Inr show ?thesis by simp
  qed
qed

lemma resolve_field_trace:
  "trace_ok st \<Longrightarrow> resolve_field nt st ns acc = (st', Inr out) \<Longrightarrow> trace_ok st'"
proof (induction ns arbitrary: st acc)
  case Nil then show ?case by simp
next
  case (Cons n ns)
  then show ?case by (auto split: prod.splits sum.splits dest: resolve_nconst_trace)
qed

lemma resolve_field_cacheD:
  "cache_ok nt st \<Longrightarrow> resolve_field nt st ns acc = (st', res) \<Longrightarrow> cache_ok nt st'"
  using resolve_field_cache[of nt st ns acc] by simp

lemma resolve_field_distinctD:
  "trace_ok st \<Longrightarrow> resolve_field nt st ns acc = (st', res) \<Longrightarrow> distinct (queried st')"
  using resolve_field_distinct[of st nt ns acc] by simp

lemma resolve_field_names:
  "cache_ok nt st \<Longrightarrow> resolve_field nt st ns [] = (st', Inr out) \<Longrightarrow> names_of nt ns out"
  unfolding names_of_def by (drule (1) resolve_field_Inr) simp

lemma map_row_cases:
  assumes "map_row nt st r = (st', r', res)"
  obtains
    (directors_fail) e where
      "resolve_field nt st (m_directors r) [] = (st', Inl e)"
      "r' = r" "res = Inl e"
  | (writers_fail) st1 ds e where
      "resolve_field nt st (m_directors r) [] = (st1, Inr ds)"
      "resolve_field nt st1 (m_writers r) [] = (st', Inl e)"
      "r' = r\<lparr>m_directors := ds\<rparr>" "res = Inl e"
  | (actors_fail) st1 ds st2 ws e where
      "resolve_field nt st (m_directors r) [] = (st1, Inr ds)"
      "resolve_field nt st1 (m_writers r) [] = (st2, Inr ws)"
      "resolve_field nt st2 (actors r) [] = (st', Inl e)"
      "r' = r\<lparr>m_directors := ds, m_writers := ws\<rparr>" "res = Inl e"
  | (all_ok) st1 ds st2 ws as where
      "resolve_field nt st (m_directors r) [] = (st1, Inr ds)"
      "resolve_field nt st1 (m_writers r) [] = (st2, Inr ws)"
      "resolve_field nt st2 (actors r) [] = (st', Inr as)"
      "r' = r\<lparr>m_directors := ds, m_writers := ws, actors := as\<rparr>" "res = Inr ()"
  using assms unfolding map_row_def Let_def
  by (auto split: prod.splits sum.splits)

lemma map_row_cache:
  assumes "cache_ok nt st" and "map_row nt st r = (st', r', res)"
  shows "cache_ok nt st'"
  using assms(2)
proof (cases rule: map_row_cases)
  case directors_fail
  with assms(1) show ?thesis by (blast intro: resolve_field_cacheD)
next
  case writers_fail
  with assms(1) show ?thesis by (blast intro: resolve_field_cacheD)
next
  case actors_fail
  with assms(1) show ?thesis by (blast intro: resolve_field_cacheD)
next
  case all_ok
  with assms(1) show ?thesis by (blast intro: resolve_field_cacheD)
qed

lemma map_row_tconst: "map_row nt st r = (st', r', res) \<Longrightarrow> m_tconst r' = m_tconst r"
  by (erule map_row_cases) simp_all

lemma map_row_Inr:
  assumes "cache_ok nt st" and "map_row nt st r = (st', r', Inr u)"
  shows "resolved_row nt r r'"
  using assms(2)
proof (cases rule: map_row_cases)
  case (all_ok st1 ds st2 ws as)
  from assms(1) all_ok(1) have c1: "cache_ok nt st1" by (rule resolve_field_cacheD)
  from c1 all_ok(2) have c2: "cache_ok nt st2" by (rule resolve_field_cacheD)
  have "names_of nt (m_directors r) ds" using assms(1) all_ok(1) by (rule resolve_field_names)
  moreover have "names_of nt (m_writers r) ws" using c1 all_ok(2) by (rule resolve_field_names)
  moreover have "names_of nt (actors r) as" using c2 all_ok(3) by (rule resolve_field_names)
  ultimately show ?thesis using all_ok(4) by (simp add: resolved_row_def)
qed simp_all

lemma map_row_Inl:
  assumes "cache_ok nt st" and "map_row nt st r = (st', r', Inl e)"
  shows "e = IndexError \<and> (\<exists>n\<in>person_ids r. n \<notin> nconst ` set nt)"
  using assms(2)
proof (cases rule: map_row_cases)
  case (directors_fail e')
  with resolve_field_Inl[OF assms(1) directors_fail(1)] show ?thesis
    by (auto simp: person_ids_def)
next
  case (writers_fail st1 ds e')
  from assms(1) writers_fail(1) have c1: "cache_ok nt st1" by (rule resolve_field_cacheD)
  with resolve_field_Inl[OF c1 writers_fail(2)] writers_fail(4) show ?thesis
    by (auto simp: person_ids_def)
next
  case (actors_fail st1 ds st2 ws e')
  from assms(1) actors_fail(1) have c1: "cache_ok nt st1" by (rule resolve_field_cacheD)
  from c1 actors_fail(2) have c2: "cache_ok nt st2" by (rule resolve_field_cacheD)
  with resolve_field_Inl[OF c2 actors_fail(3)] actors_fail(5) show ?thesis
    by (auto simp: person_ids_def)
qed simp

lemma map_row_trace:
  assumes "trace_ok st" and "map_row nt st r = (st', r', Inr u)"
  shows "trace_ok st'"
  using assms(2)
proof (cases rule: map_row_cases)
  case (all_ok st1 ds st2 ws as)
  from assms(1) all_ok(1) have "trace_ok st1" by (rule resolve_field_trace)
  then have "trace_ok st2" using all_ok(2) by (rule resolve_field_trace)
  then show ?thesis using all_ok(3) by (rule resolve_field_trace)
qed simp_all

lemma map_row_distinct:
  assumes "trace_ok st" and "map_row nt st r = (st', r', res)"
  shows "distinct (queried st')"
  using assms(2)
proof (cases rule: map_row_cases)
  case directors_fail
  with assms(1) show ?thesis by (blast intro: resolve_field_distinctD)
next
  case (writers_fail st1 ds e)
  from assms(1) writers_fail(1) have "trace_ok st1" by (rule resolve_field_trace)
  then show ?thesis using writers_fail(2) by (rule resolve_field_distinctD)
next
  case (actors_fail st1 ds st2 ws e)
  from assms(1) actors_fail(1) have "trace_ok st1" by (rule resolve_field_trace)
  then have "trace_ok st2" using actors_fail(2) by (rule resolve_field_trace)
  then show ?thesis using actors_fail(3) by (rule resolve_field_distinctD)
next
  case (all_ok st1 ds st2 ws as)
  from assms(1) all_ok(1) have "trace_ok st1" by (rule resolve_field_trace)
  then have "trace_ok st2" using all_ok(2) by (rule resolve_field_trace)
  then show ?thesis using all_ok(3) by (rule resolve_field_distinctD)
qed

lemma map_rows_tconst:
  "map_rows nt st tbl = (st', tbl', res) \<Longrightarrow> map m_tconst tbl' = map m_tconst tbl"
  by (induction tbl arbitrary: st st' tbl' res)
     (auto split: prod.splits sum.splits dest: map_row_tconst)

lemma map_rows_Inr:
  "cache_ok nt st \<Longrightarrow> map_rows nt st tbl = (st', tbl', Inr u) \<Longrightarrow>
     list_all2 (resolved_row nt) tbl tbl'"
  by (induction tbl arbitrary: st st' tbl')
     (auto split: prod.splits sum.splits dest: map_row_cache map_row_Inr)

lemma map_rows_Inl:
  "cache_ok nt st \<Longrightarrow> map_rows nt st tbl = (st', tbl', Inl e) \<Longrightarrow>
     e = IndexError \<and> (\<exists>r\<in>set tbl. \<exists>n\<in>person_ids r. n \<notin> nconst ` set nt)"
proof (induction tbl arbitrary: st st' tbl')
  case Nil then show ?case by simp
next
  case (Cons r rs)
  obtain st1 r1 res1 where m: "map_row nt st r = (st1, r1, res1)" by (cases "map_row nt st r")
  show ?case
  proof (cases res1)
    case (Inl e1)
    with m Cons.prems show ?thesis by (auto dest: map_row_Inl)
  next
    case (Inr u1)
    from m Cons.prems(1) have "cache_ok nt st1" by (auto dest: map_row_cache)
    moreover from m Inr Cons.prems(2) obtain rs' where "map_rows nt st1 rs = (st', rs', Inl e)"
      by (auto split: prod.splits)
    ultimately show ?thesis using Cons.IH by fastforce
  qed
qed

lemma map_rows_distinct:
  "trace_ok st \<Longrightarrow> map_rows nt st tbl = (st', tbl', res) \<Longrightarrow> distinct (queried st')"
proof (induction tbl arbitrary: st st' tbl' res)
  case Nil then show ?case by (simp add: trace_ok_def)
next
  case (Cons r rs)
  obtain st1 r1 res1 where m: "map_row nt st r = (st1, r1, res1)" by (cases "map_row nt st r")
  show ?case
  proof (cases res1)
    case (Inl e1)
    with m Cons.prems show ?thesis by (auto dest: map_row_distinct)
  next
    case (Inr u1)
    with m Cons.prems(1) have "trace_ok st1" by (auto dest: map_row_trace)
    moreover from m Inr Cons.prems(2) obtain rs' where "map_rows nt st1 rs = (st', rs', res)"
      by (auto split: prod.splits)
    ultimately show ?thesis using Cons.IH by blast
  qed
qed

lemma cache_ok_empty: "cache_ok nt \<lparr>mappings = Map.empty, queried = []\<rparr>"
  by (simp add: cache_ok_def)

lemma trace_ok_empty: "trace_ok \<lparr>mappings = Map.empty, queried = []\<rparr>"
  by (simp add: trace_ok_def)

subsection \<open>The merge\<close>

lemma filter_key_map:
  "distinct ks \<Longrightarrow>
   filter (\<lambda>kv. fst kv = k) (map (\<lambda>k. (k, f k)) ks) = (if k \<in> set ks then [(k, f k)] else [])"
  by (induction ks) auto

lemma groupby_join_filter:
  "filter (\<lambda>kv. fst kv = k) (groupby_join rows) =
     (if k \<in> p_tconst ` set rows
      then [(k, join_comma (map p_nconst (filter (\<lambda>p. p_tconst p = k) rows)))] else [])"
  unfolding groupby_join_def by (simp add: filter_key_map)

lemma pd_merge_inner_Cons:
  "pd_merge_inner (c # cs) right =
     map (\<lambda>kv. (c, snd kv)) (filter (\<lambda>kv. fst kv = tconst c) right) @ pd_merge_inner cs right"
  by (simp add: pd_merge_inner_def)

lemma groupby_join_actor_rows:
  "filter (\<lambda>kv. fst kv = t) (groupby_join (filter (\<lambda>p. category p = ''actor'') rows)) =
     (if actor_rows rows t \<noteq> []
      then [(t, join_comma (map p_nconst (actor_rows rows t)))] else [])"
proof -
  have "actor_rows rows t \<noteq> [] \<longleftrightarrow>
      t \<in> p_tconst ` set (filter (\<lambda>p. category p = ''actor'') rows)"
    unfolding actor_rows_def filter_empty_conv by blast
  then show ?thesis
    unfolding groupby_join_filter actor_rows_def by simp
qed

lemma pd_merge_inner_groupby:
  "map split_row (pd_merge_inner left (groupby_join (filter (\<lambda>p. category p = ''actor'') rows))) =
     map (merged_of rows) (filter (\<lambda>c. actor_rows rows (tconst c) \<noteq> []) left)"
proof (induction left)
  case Nil
  then show ?case by (simp add: pd_merge_inner_def)
next
  case (Cons c cs)
  then show ?case
    by (simp add: pd_merge_inner_Cons groupby_join_actor_rows split_row_def merged_of_def)
qed

lemma merge_crew_rows:
  "merge_crew self =
     self\<lparr>merged_crew :=
       Some (map (merged_of (principals self))
         (filter (\<lambda>c. actor_rows (principals self) (tconst c) \<noteq> []) (crew self)))\<rparr>"
  by (simp add: merge_crew_def Let_def pd_merge_inner_groupby)

subsection \<open>Consequences for whole passes\<close>

lemma names_of_known: "names_of nt ns vs \<Longrightarrow> set ns \<subseteq> nconst ` set nt"
proof
  fix n assume a: "names_of nt ns vs" and "n \<in> set ns"
  then obtain i where i: "i < length ns" "ns ! i = n" by (auto simp: in_set_conv_nth)
  with a have "lookup_name nt n = Inr (vs ! i)"
    by (auto simp: names_of_def list_all2_conv_all_nth)
  then show "n \<in> nconst ` set nt"
    using lookup_name_Inl[of nt n IndexError] by auto
qed

lemma names_of_length: "names_of nt ns vs \<Longrightarrow> length vs = length ns"
  by (simp add: names_of_def list_all2_lengthD)

lemma resolved_row_known: "resolved_row nt r r' \<Longrightarrow> person_ids r \<subseteq> nconst ` set nt"
  unfolding resolved_row_def person_ids_def by (blast dest: names_of_known)

lemma list_all2_left_in: "list_all2 P xs ys \<Longrightarrow> x \<in> set xs \<Longrightarrow> \<exists>y. P x y"
  by (auto simp: list_all2_conv_all_nth in_set_conv_nth)

lemma map_crew_run_Inl:
  assumes "r \<in> set tbl" and "n \<in> person_ids r" and "n \<notin> nconst ` set nt"
  shows "snd (snd (map_crew_run nt tbl)) = Inl IndexError"
proof -
  obtain st tbl' res where m: "map_rows nt \<lparr>mappings = Map.empty, queried = []\<rparr> tbl = (st, tbl', res)"
    by (cases "map_rows nt \<lparr>mappings = Map.empty, queried = []\<rparr> tbl")
  show ?thesis
  proof (cases res)
    case (Inl e)
    with m map_rows_Inl[OF cache_ok_empty, of nt tbl st tbl' e] show ?thesis
      by (simp add: map_crew_run_def)
  next
    case (Inr u)
    with m have "list_all2 (resolved_row nt) tbl tbl'"
      using map_rows_Inr[OF cache_ok_empty, of nt tbl st tbl' u] by simp
    with assms(1) obtain r' where "resolved_row nt r r'" by (blast dest: list_all2_left_in)
    with assms(2,3) have False by (blast dest: resolved_row_known)
    then show ?thesis ..
  qed
qed

lemma map_crew_tconst:
  "map_option (map m_tconst) (merged_crew (fst (map_crew self))) =
     map_option (map m_tconst) (merged_crew self)"
proof (cases "merged_crew self")
  case None
  then show ?thesis by (simp add: map_crew_def)
next
  case (Some tbl)
  obtain st tbl' res where m: "map_crew_run (names self) tbl = (st, tbl', res)"
    by (cases "map_crew_run (names self) tbl")
  then have "map m_tconst tbl' = map m_tconst tbl"
    unfolding map_crew_run_def by (rule map_rows_tconst)
  with Some m show ?thesis by (simp add: map_crew_def)
qed

lemma map_crew_tables:
  "crew (fst (map_crew self)) = crew self \<and> principals (fst (map_crew self)) = principals self \<and>
   names (fst (map_crew self)) = names self"
  by (simp add: map_crew_def split: option.splits prod.splits)

lemma merge_crew_films:
  assumes "merged_crew (merge_crew (init ids crew_tbl principals_tbl names_tbl)) = Some tbl"
    and "t \<in> m_tconst ` set tbl"
  shows "t \<in> set ids \<and> (\<exists>c\<in>set crew_tbl. tconst c = t) \<and>
    (\<exists>p\<in>set principals_tbl. p_tconst p = t \<and> category p = ''actor'')"
proof -
  let ?self = "init ids crew_tbl principals_tbl names_tbl"
  from assms(1) have "tbl = map (merged_of (principals ?self))
      (filter (\<lambda>c. actor_rows (principals ?self) (tconst c) \<noteq> []) (crew ?self))"
    by (simp add: merge_crew_rows)
  with assms(2) obtain c where c: "c \<in> set (crew ?self)"
    "actor_rows (principals ?self) (tconst c) \<noteq> []" "t = tconst c"
    by (auto simp: merged_of_def)
  from c(2) obtain p where "p \<in> set (principals ?self)" "p_tconst p = tconst c"
    "category p = ''actor''"
    by (auto simp: actor_rows_def filter_empty_conv)
  with c show ?thesis by (auto simp: init_def)
qed


lemma lookup_name_first:
  assumes "names_tbl = before @ row # rest" and "\<forall>r\<in>set before. nconst r \<noteq> nconst row"
  shows "lookup_name names_tbl (nconst row) = Inr (primaryName row)"
proof -
  from assms(2) have "filter (\<lambda>r. nconst r = nconst row) before = []"
    by (simp add: filter_empty_conv)
  with assms(1) show ?thesis by (simp add: lookup_name_def)
qed

subsection \<open>Concrete runs\<close>

lemma scenario_merged_any:
  "t \<in> set ids \<Longrightarrow>
   merge_crew (init ids (scenario_crew t) (scenario_principals t) nt) =
     \<lparr>crew = scenario_crew t, principals = scenario_principals t, names = nt,
      merged_crew = Some [\<lparr>m_tconst = t, m_directors = [''nm1'', ''nm2''],
        m_writers = [''nm3''], actors = [''nm4'', ''nm5'']\<rparr>]\<rparr>"
  by (simp add: merge_crew_rows init_def scenario_crew_def scenario_principals_def
      actor_rows_def merged_of_def split_comma_def)

lemma scenario_mapped:
  "map_crew_run scenario_names [\<lparr>m_tconst = t, m_directors = [''nm1'', ''nm2''],
        m_writers = [''nm3''], actors = [''nm4'', ''nm5'']\<rparr>] =
   (\<lparr>mappings = [''nm1'' \<mapsto> ''A'', ''nm2'' \<mapsto> ''B'', ''nm3'' \<mapsto> ''C'', ''nm4'' \<mapsto> ''D'', ''nm5'' \<mapsto> ''E''],
     queried = [''nm1'', ''nm2'', ''nm3'', ''nm4'', ''nm5'']\<rparr>,
    [\<lparr>m_tconst = t, m_directors = [''A'', ''B''], m_writers = [''C''], actors = [''D'', ''E'']\<rparr>],
    Inr ())"
  by (simp add: map_crew_run_def map_row_def resolve_nconst_def lookup_name_def scenario_names_def)

lemma repeat_mapped:
  "map_crew_run scenario_names repeat_table =
   (\<lparr>mappings = [''nm1'' \<mapsto> ''A'', ''nm3'' \<mapsto> ''C'', ''nm4'' \<mapsto> ''D''],
     queried = [''nm1'', ''nm3'', ''nm4'']\<rparr>,
    [\<lparr>m_tconst = ''tt0050083'', m_directors = [''A'', ''A''], m_writers = [''C''],
      actors = [''D'', ''A'']\<rparr>],
    Inr ())"
  by (simp add: map_crew_run_def map_row_def resolve_nconst_def lookup_name_def
      scenario_names_def repeat_table_def)

lemma first_film: "''tt0050083'' \<in> set MOVIE_IDS"
  by (simp add: MOVIE_IDS_def)

section \<open>The claims\<close>

text \<open>
  C1. Every row of the table that the script holds after the resolution pass, which is the
  table it writes, has a film identifier that is in \<open>MOVIE_IDS\<close>, is the identifier of a
  row of the crew table as loaded, and is the identifier of a row of the principals table
  as loaded whose category is \<open>actor\<close>. No other film identifier is in the table.
\<close>

theorem output_films_in_sources:
  assumes "merged_crew (fst (map_crew (merge_crew
      (init MOVIE_IDS crew_tbl principals_tbl names_tbl)))) = Some out"
    and "r \<in> set out"
  shows "m_tconst r \<in> set MOVIE_IDS \<and>
    (\<exists>c\<in>set crew_tbl. tconst c = m_tconst r) \<and>
    (\<exists>p\<in>set principals_tbl. p_tconst p = m_tconst r \<and> category p = ''actor'')"
proof -
  let ?self = "merge_crew (init MOVIE_IDS crew_tbl principals_tbl names_tbl)"
  from assms(1) map_crew_tconst[of ?self]
  obtain tbl where t: "merged_crew ?self = Some tbl" "map m_tconst tbl = map m_tconst out"
    by (cases "merged_crew ?self") auto
  from assms(2) have "m_tconst r \<in> set (map m_tconst out)" by simp
  with t(2) have "m_tconst r \<in> m_tconst ` set tbl" by (metis set_map)
  with t(1) show ?thesis by (rule merge_crew_films)
qed

text \<open>A run on the scenario tables for the first film of \<open>MOVIE_IDS\<close>.\<close>

theorem output_films_in_sources_witness:
  "merged_crew (fst (map_crew (merge_crew
      (init MOVIE_IDS (scenario_crew ''tt0050083'') (scenario_principals ''tt0050083'')
         scenario_names)))) =
     Some [\<lparr>m_tconst = ''tt0050083'', m_directors = [''A'', ''B''], m_writers = [''C''],
       actors = [''D'', ''E'']\<rparr>] \<and>
   ''tt0050083'' \<in> set MOVIE_IDS \<and>
   (\<exists>c\<in>set (scenario_crew ''tt0050083''). tconst c = ''tt0050083'') \<and>
   (\<exists>p\<in>set (scenario_principals ''tt0050083''). p_tconst p = ''tt0050083'' \<and> category p = ''actor'')"
proof -
  have h: "merged_crew (fst (map_crew (merge_crew
      (init MOVIE_IDS (scenario_crew ''tt0050083'') (scenario_principals ''tt0050083'')
         scenario_names)))) =
     Some [\<lparr>m_tconst = ''tt0050083'', m_directors = [''A'', ''B''], m_writers = [''C''],
       actors = [''D'', ''E'']\<rparr>]"
    using scenario_merged_any[OF first_film, of scenario_names] scenario_mapped[of "''tt0050083''"]
    by (simp add: map_crew_def)
  from output_films_in_sources [OF h, of "\<lparr>m_tconst = ''tt0050083'', m_directors = [''A'', ''B''],
      m_writers = [''C''], actors = [''D'', ''E'']\<rparr>"] h
  show ?thesis by simp
qed

text \<open>
  C2. On the scenario tables for film \<open>tt0001\<close>, with \<open>tt0001\<close> in the list of films,
  merging and resolving succeeds with the one row (\<open>tt0001\<close>, [A, B], [C], [D, E]). The
  merged row before resolution has the actor identifiers \<open>nm4\<close> and \<open>nm5\<close> only: the
  principals row of \<open>nm6\<close>, a director, adds nothing.
\<close>

theorem scenario_output_row:
  assumes "''tt0001'' \<in> set ids"
  shows "map_crew (merge_crew
           (init ids (scenario_crew ''tt0001'') (scenario_principals ''tt0001'') scenario_names)) =
         (\<lparr>crew = scenario_crew ''tt0001'', principals = scenario_principals ''tt0001'',
           names = scenario_names,
           merged_crew = Some [\<lparr>m_tconst = ''tt0001'', m_directors = [''A'', ''B''],
             m_writers = [''C''], actors = [''D'', ''E'']\<rparr>]\<rparr>, Inr ()) \<and>
    merged_crew (merge_crew
           (init ids (scenario_crew ''tt0001'') (scenario_principals ''tt0001'') scenario_names)) =
         Some [\<lparr>m_tconst = ''tt0001'', m_directors = [''nm1'', ''nm2''],
             m_writers = [''nm3''], actors = [''nm4'', ''nm5'']\<rparr>]"
  using scenario_merged_any[OF assms, of scenario_names] scenario_mapped[of "''tt0001''"]
  by (simp add: map_crew_def)

text \<open>The same with \<open>tt0001\<close> as the only film of the list.\<close>

theorem scenario_output_row_witness:
  "map_crew (merge_crew
           (init [''tt0001''] (scenario_crew ''tt0001'') (scenario_principals ''tt0001'') scenario_names)) =
         (\<lparr>crew = scenario_crew ''tt0001'', principals = scenario_principals ''tt0001'',
           names = scenario_names,
           merged_crew = Some [\<lparr>m_tconst = ''tt0001'', m_directors = [''A'', ''B''],
             m_writers = [''C''], actors = [''D'', ''E'']\<rparr>]\<rparr>, Inr ()) \<and>
    merged_crew (merge_crew
           (init [''tt0001''] (scenario_crew ''tt0001'') (scenario_principals ''tt0001'') scenario_names)) =
         Some [\<lparr>m_tconst = ''tt0001'', m_directors = [''nm1'', ''nm2''],
             m_writers = [''nm3''], actors = [''nm4'', ''nm5'']\<rparr>]"
  using scenario_output_row [of "[''tt0001'']"] by simp

text \<open>
  C3. When the resolution pass succeeds, the table has as many rows as before, and in every
  row each of the three lists has the length it had, its element at each position being
  the name that the names table gives for the identifier at that position. Identifiers
  that occur several times get one name per occurrence.
\<close>

theorem resolved_names_in_order:
  assumes "merged_crew self = Some tbl" and "map_crew self = (self', Inr u)"
  shows "\<exists>tbl'. merged_crew self' = Some tbl' \<and> length tbl' = length tbl \<and>
     list_all2 (\<lambda>r r'.
        length (m_directors r') = length (m_directors r) \<and>
        length (m_writers r') = length (m_writers r) \<and>
        length (actors r') = length (actors r) \<and>
        resolved_row (names self) r r') tbl tbl'"
proof -
  obtain st tbl' res where m: "map_crew_run (names self) tbl = (st, tbl', res)"
    by (cases "map_crew_run (names self) tbl")
  with assms have s: "self' = self\<lparr>merged_crew := Some tbl'\<rparr>" and r: "res = Inr u"
    by (simp_all add: map_crew_def)
  from m r have a: "list_all2 (resolved_row (names self)) tbl tbl'"
    unfolding map_crew_run_def by (auto dest: map_rows_Inr[OF cache_ok_empty])
  then have "list_all2 (\<lambda>r r'.
        length (m_directors r') = length (m_directors r) \<and>
        length (m_writers r') = length (m_writers r) \<and>
        length (actors r') = length (actors r) \<and>
        resolved_row (names self) r r') tbl tbl'"
    by (rule list_all2_mono) (auto simp: resolved_row_def dest: names_of_length)
  with a s show ?thesis by (auto dest: list_all2_lengthD)
qed

text \<open>A pass over a row in which \<open>nm1\<close> occurs three times.\<close>

theorem resolved_names_in_order_witness:
  "map_crew repeat_reader =
     (repeat_reader\<lparr>merged_crew := Some [\<lparr>m_tconst = ''tt0050083'', m_directors = [''A'', ''A''],
        m_writers = [''C''], actors = [''D'', ''A'']\<rparr>]\<rparr>, Inr ()) \<and>
   (\<exists>tbl'. merged_crew (fst (map_crew repeat_reader)) = Some tbl' \<and>
      length tbl' = length repeat_table \<and>
      list_all2 (\<lambda>r r'.
        length (m_directors r') = length (m_directors r) \<and>
        length (m_writers r') = length (m_writers r) \<and>
        length (actors r') = length (actors r) \<and>
        resolved_row scenario_names r r') repeat_table tbl')"
proof -
  have h1: "merged_crew repeat_reader = Some repeat_table" by (simp add: repeat_reader_def)
  have h2: "map_crew repeat_reader =
     (repeat_reader\<lparr>merged_crew := Some [\<lparr>m_tconst = ''tt0050083'', m_directors = [''A'', ''A''],
        m_writers = [''C''], actors = [''D'', ''A'']\<rparr>]\<rparr>, Inr ())"
    by (simp add: map_crew_def repeat_reader_def repeat_mapped)
  from resolved_names_in_order [OF h1 h2] h2 show ?thesis
    by (simp add: repeat_reader_def)
qed

text \<open>
  C4. If some person identifier in one of the three lists of some merged row has no row in
  the names table, the resolution pass ends with \<open>IndexError\<close>; and the script, run from
  the loaded tables, ends with that error and leaves the files as they were: nothing is
  written.
\<close>

theorem missing_name_aborts:
  assumes "merged_crew self = Some tbl" and "r \<in> set tbl" and "n \<in> person_ids r"
    and "n \<notin> nconst ` set (names self)"
  shows "snd (map_crew self) = Inl IndexError \<and>
    (self = merge_crew (init ids crew_tbl principals_tbl names_tbl) \<longrightarrow>
       run ids fs crew_tbl principals_tbl names_tbl = (fs, Inl IndexError))"
proof -
  from assms(2-4) have "snd (snd (map_crew_run (names self) tbl)) = Inl IndexError"
    by (rule map_crew_run_Inl)
  with assms(1) have s: "snd (map_crew self) = Inl IndexError"
    by (auto simp: map_crew_def split: prod.splits)
  then show ?thesis
    by (auto simp: run_def Let_def split: prod.splits sum.splits)
qed

text \<open>
  The script on the scenario with no name for \<open>nm5\<close>, and a file left over from an
  earlier run.
\<close>

theorem missing_name_aborts_witness:
  "snd (map_crew (merge_crew (init MOVIE_IDS (scenario_crew ''tt0050083'')
       (scenario_principals ''tt0050083'') short_names))) = Inl IndexError \<and>
   main (old_files True) (scenario_crew ''tt0050083'')
       (scenario_principals ''tt0050083'') short_names =
     (old_files True, Inl IndexError)"
proof -
  let ?self = "merge_crew (init MOVIE_IDS (scenario_crew ''tt0050083'')
       (scenario_principals ''tt0050083'') short_names)"
  let ?row = "\<lparr>m_tconst = ''tt0050083'', m_directors = [''nm1'', ''nm2''],
        m_writers = [''nm3''], actors = [''nm4'', ''nm5'']\<rparr>"
  have h1: "merged_crew ?self = Some [?row]"
    by (simp add: scenario_merged_any[OF first_film])
  have h2: "?row \<in> set [?row]" by simp
  have h3: "''nm5'' \<in> person_ids ?row" by (simp add: person_ids_def)
  have h4: "''nm5'' \<notin> nconst ` set (names ?self)"
    by (simp add: scenario_merged_any[OF first_film] short_names_def)
  from missing_name_aborts [OF h1 h2 h3 h4, of MOVIE_IDS "scenario_crew ''tt0050083''"
      "scenario_principals ''tt0050083''" short_names "old_files True"]
  show ?thesis by (simp add: main_def)
qed

text \<open>
  C5. Resolving an identifier that is a key of the dictionary returns the stored value and
  leaves the state as it is, so the names table is not scanned; resolving one that is not
  a key scans the table once, for this identifier. Over a whole pass no identifier is
  scanned for twice.
\<close>

theorem memoised_lookup:
  "(mappings st n = Some v \<longrightarrow> resolve_nconst names_tbl st n = (st, Inr v)) \<and>
   (mappings st n = None \<longrightarrow> queried (fst (resolve_nconst names_tbl st n)) = queried st @ [n]) \<and>
   distinct (queried (fst (map_crew_run names_tbl tbl)))"
proof -
  have "distinct (queried (fst (map_crew_run names_tbl tbl)))"
    unfolding map_crew_run_def
    by (cases "map_rows names_tbl \<lparr>mappings = Map.empty, queried = []\<rparr> tbl")
       (auto dest: map_rows_distinct[OF trace_ok_empty])
  then show ?thesis
    by (auto simp: resolve_nconst_def split: sum.splits)
qed

text \<open>A stored identifier, a fresh one, and a pass in which \<open>nm1\<close> occurs three times.\<close>

theorem memoised_lookup_witness:
  "resolve_nconst scenario_names \<lparr>mappings = [''nm1'' \<mapsto> ''A''], queried = [''nm1'']\<rparr> ''nm1'' =
     (\<lparr>mappings = [''nm1'' \<mapsto> ''A''], queried = [''nm1'']\<rparr>, Inr ''A'') \<and>
   queried (fst (resolve_nconst scenario_names \<lparr>mappings = Map.empty, queried = []\<rparr> ''nm1'')) = [''nm1''] \<and>
   queried (fst (map_crew_run scenario_names repeat_table)) = [''nm1'', ''nm3'', ''nm4''] \<and>
   distinct (queried (fst (map_crew_run scenario_names repeat_table)))"
  using memoised_lookup [of "\<lparr>mappings = [''nm1'' \<mapsto> ''A''], queried = [''nm1'']\<rparr>" "''nm1''" "''A''"
      scenario_names repeat_table]
    memoised_lookup [of "\<lparr>mappings = Map.empty, queried = []\<rparr>" "''nm1''" "''A''"
      scenario_names repeat_table]
  by (simp add: repeat_mapped)

text \<open>
  C6. The lists that line 69 joins are the groups of \<open>groupby\<close>, one per film identifier
  of the table, each with at least one row. For every such group whose identifiers have
  no comma, the joined string is the comma-join of the group and splitting it on commas
  gives the group back. In the other direction, for every string, splitting on commas and
  joining again gives the string back.
\<close>

theorem comma_round_trip:
  "((k, joined) \<in> set (groupby_join rows) \<and> (\<forall>p\<in>set rows. CHR '','' \<notin> set (p_nconst p)) \<longrightarrow>
      joined = join_comma (map p_nconst (filter (\<lambda>p. p_tconst p = k) rows)) \<and>
      split_comma joined = map p_nconst (filter (\<lambda>p. p_tconst p = k) rows)) \<and>
   join_comma (split_comma s) = s"
proof -
  have "split_comma joined = map p_nconst (filter (\<lambda>p. p_tconst p = k) rows) \<and>
      joined = join_comma (map p_nconst (filter (\<lambda>p. p_tconst p = k) rows))"
    if m: "(k, joined) \<in> set (groupby_join rows)"
      and c: "\<forall>p\<in>set rows. CHR '','' \<notin> set (p_nconst p)"
  proof -
    let ?g = "map p_nconst (filter (\<lambda>p. p_tconst p = k) rows)"
    from m have k: "k \<in> p_tconst ` set rows" and j: "joined = join_comma ?g"
      by (auto simp: groupby_join_def)
    from k have "?g \<noteq> []" by (auto simp: filter_empty_conv)
    moreover from c have "\<forall>x\<in>set ?g. CHR '','' \<notin> set x" by auto
    ultimately have "split_comma (join_comma ?g) = ?g" by (rule split_join)
    with j show ?thesis by simp
  qed
  moreover have "join_comma (split_comma s) = s"
    by (simp add: split_comma_def join_split_acc)
  ultimately show ?thesis by blast
qed

text \<open>The group of the scenario film, and the directors field of its crew row.\<close>

theorem comma_round_trip_witness:
  "(''tt0050083'', ''nm4,nm5,nm6'') \<in> set (groupby_join (scenario_principals ''tt0050083'')) \<and>
   split_comma ''nm4,nm5,nm6'' = [''nm4'', ''nm5'', ''nm6''] \<and>
   join_comma (split_comma ''nm1,nm2'') = ''nm1,nm2''"
proof -
  have m: "(''tt0050083'', ''nm4,nm5,nm6'') \<in> set (groupby_join (scenario_principals ''tt0050083''))"
    by (simp add: groupby_join_def scenario_principals_def)
  have c: "\<forall>p\<in>set (scenario_principals ''tt0050083''). CHR '','' \<notin> set (p_nconst p)"
    by (simp add: scenario_principals_def)
  from comma_round_trip [of "''tt0050083''" "''nm4,nm5,nm6''" "scenario_principals ''tt0050083''"
      "''nm1,nm2''"] m c
  show ?thesis by (simp add: scenario_principals_def)
qed

text \<open>
  C7. The rows of the merged table are those of the crew rows that have actor rows, in
  order; and where the directors field or the writers field of the crew row has no comma,
  as the no-value marker has none, the list of the merged row is that field alone.
\<close>

theorem marker_field_kept:
  assumes "merged_crew (merge_crew self) = Some tbl"
  shows "list_all2 (\<lambda>c r. m_tconst r = tconst c \<and>
       (CHR '','' \<notin> set (directors c) \<longrightarrow> m_directors r = [directors c]) \<and>
       (CHR '','' \<notin> set (writers c) \<longrightarrow> m_writers r = [writers c]))
     (filter (\<lambda>c. actor_rows (principals self) (tconst c) \<noteq> []) (crew self)) tbl"
proof -
  from assms have "tbl = map (merged_of (principals self))
      (filter (\<lambda>c. actor_rows (principals self) (tconst c) \<noteq> []) (crew self))"
    by (simp add: merge_crew_rows)
  then show ?thesis
    by (simp add: list_all2_map2 list_all2_same merged_of_def split_comma_def split_acc_nocomma)
qed

text \<open>A crew row with the marker in both fields.\<close>

theorem marker_field_kept_witness:
  "merged_crew (merge_crew marker_reader) =
     Some [\<lparr>m_tconst = ''tt0050083'', m_directors = [no_value_marker],
       m_writers = [no_value_marker], actors = [''nm4'', ''nm5'']\<rparr>] \<and>
   CHR '','' \<notin> set no_value_marker"
proof -
  have h: "merged_crew (merge_crew marker_reader) =
     Some [\<lparr>m_tconst = ''tt0050083'', m_directors = split_comma no_value_marker,
       m_writers = split_comma no_value_marker, actors = [''nm4'', ''nm5'']\<rparr>]"
    by (simp add: merge_crew_rows marker_reader_def scenario_principals_def actor_rows_def
        merged_of_def) (simp add: split_comma_def)
  have n: "CHR '','' \<notin> set no_value_marker" by (simp add: no_value_marker_def)
  from marker_field_kept [OF h] n h show ?thesis
    by (simp add: marker_reader_def scenario_principals_def actor_rows_def)
qed

text \<open>
  C8. The name of an identifier is the \<open>primaryName\<close> of the first row of the names table
  with this identifier, whether or not later rows have it too; and in a pass that
  succeeds, every occurrence of the identifier in the three lists is replaced by that
  name.
\<close>

theorem first_matching_name:
  assumes "names_tbl = before @ row # rest" and "\<forall>r\<in>set before. nconst r \<noteq> nconst row"
  shows "lookup_name names_tbl (nconst row) = Inr (primaryName row) \<and>
    (map_crew_run names_tbl tbl = (st', tbl', Inr u) \<longrightarrow>
       list_all2 (\<lambda>r r'.
          list_all2 (\<lambda>n v. n = nconst row \<longrightarrow> v = primaryName row) (m_directors r) (m_directors r') \<and>
          list_all2 (\<lambda>n v. n = nconst row \<longrightarrow> v = primaryName row) (m_writers r) (m_writers r') \<and>
          list_all2 (\<lambda>n v. n = nconst row \<longrightarrow> v = primaryName row) (actors r) (actors r'))
        tbl tbl')"
proof -
  have l: "lookup_name names_tbl (nconst row) = Inr (primaryName row)"
    using assms by (rule lookup_name_first)
  have n: "list_all2 (\<lambda>n v. n = nconst row \<longrightarrow> v = primaryName row) ns vs"
    if "names_of names_tbl ns vs" for ns vs
    using that unfolding names_of_def by (rule list_all2_mono) (use l in auto)
  have "list_all2 (\<lambda>r r'.
          list_all2 (\<lambda>n v. n = nconst row \<longrightarrow> v = primaryName row) (m_directors r) (m_directors r') \<and>
          list_all2 (\<lambda>n v. n = nconst row \<longrightarrow> v = primaryName row) (m_writers r) (m_writers r') \<and>
          list_all2 (\<lambda>n v. n = nconst row \<longrightarrow> v = primaryName row) (actors r) (actors r'))
        tbl tbl'"
    if "map_crew_run names_tbl tbl = (st', tbl', Inr u)"
  proof -
    from that have "list_all2 (resolved_row names_tbl) tbl tbl'"
      unfolding map_crew_run_def by (rule map_rows_Inr[OF cache_ok_empty])
    then show ?thesis
      by (rule list_all2_mono) (simp add: resolved_row_def n)
  qed
  with l show ?thesis by blast
qed

text \<open>A names table with two rows for \<open>nm1\<close>.\<close>

theorem first_matching_name_witness:
  "lookup_name duplicate_names ''nm1'' = Inr ''A'' \<and>
   fst (snd (map_crew_run duplicate_names duplicate_table)) =
     [\<lparr>m_tconst = ''tt0050083'', m_directors = [''A''], m_writers = [''B''],
       actors = [''B'', ''A'']\<rparr>] \<and>
   list_all2 (\<lambda>r r'.
      list_all2 (\<lambda>n v. n = ''nm1'' \<longrightarrow> v = ''A'') (m_directors r) (m_directors r') \<and>
      list_all2 (\<lambda>n v. n = ''nm1'' \<longrightarrow> v = ''A'') (m_writers r) (m_writers r') \<and>
      list_all2 (\<lambda>n v. n = ''nm1'' \<longrightarrow> v = ''A'') (actors r) (actors r'))
     duplicate_table (fst (snd (map_crew_run duplicate_names duplicate_table)))"
proof -
  have d: "duplicate_names = [] @ \<lparr>nconst = ''nm1'', primaryName = ''A''\<rparr> #
      [\<lparr>nconst = ''nm2'', primaryName = ''B''\<rparr>, \<lparr>nconst = ''nm1'', primaryName = ''Z''\<rparr>]"
    by (simp add: duplicate_names_def)
  have b: "\<forall>r\<in>set []. nconst r \<noteq> nconst \<lparr>nconst = ''nm1'', primaryName = ''A''\<rparr>" by simp
  have m: "map_crew_run duplicate_names duplicate_table =
     (\<lparr>mappings = [''nm1'' \<mapsto> ''A'', ''nm2'' \<mapsto> ''B''], queried = [''nm1'', ''nm2'']\<rparr>,
      [\<lparr>m_tconst = ''tt0050083'', m_directors = [''A''], m_writers = [''B''],
        actors = [''B'', ''A'']\<rparr>], Inr ())"
    by (simp add: map_crew_run_def map_row_def resolve_nconst_def lookup_name_def
        duplicate_names_def duplicate_table_def)
  from first_matching_name [OF d b, of duplicate_table _ _ "()"] m show ?thesis by simp
qed




text \<open>
  C10. The resolution pass, whether it succeeds or fails, leaves the crew, principals and
  names tables as they were, and in the merged table the column of film identifiers,
  hence the number of rows and their order.
\<close>

theorem map_crew_frame:
  "crew (fst (map_crew self)) = crew self \<and>
   principals (fst (map_crew self)) = principals self \<and>
   names (fst (map_crew self)) = names self \<and>
   map_option (map m_tconst) (merged_crew (fst (map_crew self))) =
     map_option (map m_tconst) (merged_crew self) \<and>
   map_option length (merged_crew (fst (map_crew self))) = map_option length (merged_crew self)"
proof -
  have "map_option length (merged_crew (fst (map_crew self))) =
      map_option length (map_option (map m_tconst) (merged_crew (fst (map_crew self))))"
    by (simp add: option.map_comp comp_def)
  also have "\<dots> = map_option length (merged_crew self)"
    by (simp add: map_crew_tconst option.map_comp comp_def)
  finally show ?thesis using map_crew_tables[of self] map_crew_tconst[of self] by simp
qed

end
